theory Spec2Isabelle
  imports Main "HOL-Library.Word"
begin

section \<open>JavaScript strings\<close>

text \<open>
  A JavaScript string is a sequence of UTF-16 code units; \<open>length\<close>, \<open>substring\<close>,
  \<open>startsWith\<close> and regular expressions without the \<open>u\<close> flag all work on code
  units. A string literal of the source is written \<open>lit ''...''\<close>.
\<close>

type_synonym unit16 = "16 word"
type_synonym jsstring = "unit16 list"

definition lit :: "string \<Rightarrow> jsstring" where
  "lit s = map of_char s"

text \<open>The character classes of the source's regular expressions.\<close>

definition is_digit :: "unit16 \<Rightarrow> bool" where
  \<comment> \<open>\<open>\d\<close>: the ten ASCII digits.\<close>
  "is_digit c = (0x30 \<le> c \<and> c \<le> 0x39)"

definition non_digit :: "unit16 \<Rightarrow> bool" where
  \<comment> \<open>\<open>\D\<close>\<close>
  "non_digit c = (\<not> is_digit c)"

definition is_space :: "unit16 \<Rightarrow> bool" where
  \<comment> \<open>\<open>\s\<close>: ECMAScript WhiteSpace and LineTerminator; \<open>trim\<close> strips the same set.\<close>
  "is_space c =
     (c = 0x09 \<or> c = 0x0A \<or> c = 0x0B \<or> c = 0x0C \<or> c = 0x0D \<or> c = 0x20 \<or> c = 0xA0 \<or>
      c = 0x1680 \<or> (0x2000 \<le> c \<and> c \<le> 0x200A) \<or> c = 0x2028 \<or> c = 0x2029 \<or>
      c = 0x202F \<or> c = 0x205F \<or> c = 0x3000 \<or> c = 0xFEFF)"

definition is_separator :: "unit16 \<Rightarrow> bool" where
  \<comment> \<open>the class \<open>[\s\-\(\)]\<close>\<close>
  "is_separator c = (is_space c \<or> c = 0x2D \<or> c = 0x28 \<or> c = 0x29)"

definition is_plus :: "unit16 \<Rightarrow> bool" where
  \<comment> \<open>\<open>\+\<close>\<close>
  "is_plus c = (c = 0x2B)"

definition is_one :: "unit16 \<Rightarrow> bool" where
  \<comment> \<open>the literal \<open>1\<close>\<close>
  "is_one c = (c = 0x31)"

section \<open>Regular expressions\<close>

text \<open>
  The fragment of regular expressions the source uses: a one-character class, sequence,
  \<open>r?\<close> and \<open>r{lo,hi}\<close>. \<open>rmatch r s\<close> lists, in the order a backtracking matcher
  tries them, the rests of \<open>s\<close> after each way of matching \<open>r\<close> at its start.
\<close>

datatype regex =
    Class "unit16 \<Rightarrow> bool"
  | Seq regex regex
  | Opt regex
  | Rep nat nat regex

fun repeat :: "(jsstring \<Rightarrow> jsstring list) \<Rightarrow> nat \<Rightarrow> nat \<Rightarrow> jsstring \<Rightarrow> jsstring list" where
  \<comment> \<open>between \<open>lo\<close> and \<open>hi\<close> rounds of the matcher \<open>m\<close>, the longest first\<close>
  "repeat m lo 0 s = (if lo = 0 then [s] else [])"
| "repeat m lo (Suc hi) s =
     concat (map (repeat m (lo - 1) hi) (m s)) @ (if lo = 0 then [s] else [])"

primrec rmatch :: "regex \<Rightarrow> jsstring \<Rightarrow> jsstring list" where
  "rmatch (Class p) s = (case s of [] \<Rightarrow> [] | c # cs \<Rightarrow> if p c then [cs] else [])"
| "rmatch (Seq r1 r2) s = concat (map (rmatch r2) (rmatch r1 s))"
| "rmatch (Opt r) s = rmatch r s @ [s]"
| "rmatch (Rep lo hi r) s = repeat (rmatch r) lo hi s"

definition test_anchored :: "regex \<Rightarrow> jsstring \<Rightarrow> bool" where
  \<comment> \<open>\<open>/^r$/.test(s)\<close>: some way of matching \<open>r\<close> at the start consumes all of \<open>s\<close>.\<close>
  "test_anchored r s = ([] \<in> set (rmatch r s))"

definition remove_all :: "(unit16 \<Rightarrow> bool) \<Rightarrow> jsstring \<Rightarrow> jsstring" where
  \<comment> \<open>\<open>s.replace(/[class]/g, '')\<close>: every code unit of the class is dropped.\<close>
  "remove_all p s = filter (\<lambda>c. \<not> p c) s"

definition substring :: "jsstring \<Rightarrow> nat \<Rightarrow> nat \<Rightarrow> jsstring" where
  \<comment> \<open>\<open>s.substring(i, j)\<close> for \<open>0 \<le> i \<le> j\<close>, as at every call of the source\<close>
  "substring s i j = take (j - i) (drop i s)"

definition substring_from :: "jsstring \<Rightarrow> nat \<Rightarrow> jsstring" where
  \<comment> \<open>\<open>s.substring(i)\<close>\<close>
  "substring_from s i = drop i s"

definition startsWith :: "jsstring \<Rightarrow> jsstring \<Rightarrow> bool" where
  "startsWith s p = (take (length p) s = p)"

definition trim :: "jsstring \<Rightarrow> jsstring" where
  "trim s = rev (dropWhile is_space (rev (dropWhile is_space s)))"

section \<open>Phone helpers of the frontend\<close>

definition phoneRegex :: regex where
  \<comment> \<open>\<open>/^\+?\d{10,15}$/\<close>\<close>
  "phoneRegex = Seq (Opt (Class is_plus)) (Rep 10 15 (Class is_digit))"

definition validatePhone :: "jsstring \<Rightarrow> bool" where
  "validatePhone phone =
     (let cleaned = remove_all is_separator phone
      in test_anchored phoneRegex cleaned)"

definition formatPhoneToUS :: "jsstring \<Rightarrow> jsstring" where
  "formatPhoneToUS phone =
     (let digitsOnly = remove_all non_digit phone
      in if length digitsOnly = 11 \<and> startsWith digitsOnly (lit ''1'') then lit ''+'' @ digitsOnly
         else if length digitsOnly = 10 then lit ''+1'' @ digitsOnly
         else if startsWith phone (lit ''+'') then remove_all is_separator phone
         else digitsOnly)"

definition formatPhoneInput :: "jsstring \<Rightarrow> jsstring" where
  "formatPhoneInput input =
     (let digitsOnly = remove_all non_digit input;
          limited = substring digitsOnly 0 10
      in if length limited \<le> 3 then limited
         else if length limited \<le> 6 then
           lit ''('' @ substring limited 0 3 @ lit '') '' @ substring_from limited 3
         else
           lit ''('' @ substring limited 0 3 @ lit '') '' @ substring limited 3 6 @ lit ''-''
             @ substring_from limited 6)"

section \<open>Values, requests and responses of the backend\<close>

text \<open>
  The values a parsed JSON body can hold, and \<open>undefined\<close> for a property that is not
  there. The handlers read a number only through its truthiness, so a number is kept as
  an integer.
\<close>

datatype jsvalue =
    Undefined
  | Null
  | Boolean bool
  | Number int
  | String jsstring
  | Array "jsvalue list"
  | Object "(jsstring \<times> jsvalue) list"

fun truthy :: "jsvalue \<Rightarrow> bool" where
  "truthy Undefined = False"
| "truthy Null = False"
| "truthy (Boolean b) = b"
| "truthy (Number n) = (n \<noteq> 0)"
| "truthy (String s) = (s \<noteq> [])"
| "truthy (Array xs) = True"
| "truthy (Object kvs) = True"

fun typeof :: "jsvalue \<Rightarrow> string" where
  "typeof Undefined = ''undefined''"
| "typeof Null = ''object''"
| "typeof (Boolean b) = ''boolean''"
| "typeof (Number n) = ''number''"
| "typeof (String s) = ''string''"
| "typeof (Array xs) = ''object''"
| "typeof (Object kvs) = ''object''"

fun the_string :: "jsvalue \<Rightarrow> jsstring" where
  \<comment> \<open>the code units of a value already known to be a string (the source calls string
      methods only behind a \<open>typeof\<close> test)\<close>
  "the_string (String s) = s"
| "the_string v = []"

type_synonym properties = "(jsstring \<times> jsvalue) list"

definition field :: "properties \<Rightarrow> jsstring \<Rightarrow> jsvalue" where
  \<comment> \<open>reading a property of \<open>req.body\<close>, the object \<open>express.json()\<close> parsed:
      \<open>undefined\<close> when it is not there\<close>
  "field obj k = (case map_of obj k of None \<Rightarrow> Undefined | Some v \<Rightarrow> v)"

record response =
  status :: nat
  body :: properties

definition json :: "properties \<Rightarrow> response" where
  \<comment> \<open>\<open>res.json(obj)\<close>\<close>
  "json obj = \<lparr>status = 200, body = obj\<rparr>"

definition status_json :: "nat \<Rightarrow> properties \<Rightarrow> response" where
  \<comment> \<open>\<open>res.status(code).json(obj)\<close>\<close>
  "status_json code obj = \<lparr>status = code, body = obj\<rparr>"

section \<open>The payment provider\<close>

text \<open>
  The provider's client is a parameter of the handlers. A call either resolves with its
  result or rejects with an error that carries a message; the handlers \<open>await\<close> each call,
  so a rejection is a throw into the enclosing \<open>catch\<close>. Every call a handler issues is
  recorded, in order. The lines the handlers write to the console are left out.
\<close>

datatype error = Error (message: jsstring)

datatype customer = Customer (customer_id: jsstring)

datatype session = Session (client_secret: jsstring)

record provider =
  customers_create :: "jsvalue \<Rightarrow> error + customer"
  sessions_create :: "jsvalue \<Rightarrow> error + session"
  customers_update :: "jsvalue \<Rightarrow> jsvalue \<Rightarrow> error + unit"

datatype provider_call =
    CustomersCreate jsvalue
  | SessionsCreate jsvalue
  | CustomersUpdate jsvalue jsvalue

section \<open>Handlers of the backend\<close>

text \<open>
  A handler returns its response together with the provider calls it issued. The JSON
  middleware runs before the handler: \<open>req.body\<close> is the object it parsed, or
  \<open>undefined\<close> where the middleware leaves a request without a JSON body untouched.
\<close>

definition customer_params :: "jsstring \<Rightarrow> jsvalue" where
  \<comment> \<open>the argument of \<open>stripe.customers.create\<close>\<close>
  "customer_params now = Object [(lit ''metadata'', Object [(lit ''created_at'', String now)])]"

definition session_params :: "jsstring \<Rightarrow> customer \<Rightarrow> jsvalue" where
  \<comment> \<open>the argument of \<open>stripe.checkout.sessions.create\<close>\<close>
  "session_params frontend_url customer = Object
     [(lit ''mode'', String (lit ''setup'')),
      (lit ''ui_mode'', String (lit ''embedded'')),
      (lit ''customer'', String (customer_id customer)),
      (lit ''payment_method_types'', Array [String (lit ''card'')]),
      (lit ''return_url'',
       String (frontend_url @ lit ''?success=true&session_id={CHECKOUT_SESSION_ID}''))]"

definition create_setup_session ::
  "provider \<Rightarrow> jsstring \<Rightarrow> jsstring \<Rightarrow> response \<times> provider_call list" where
  \<comment> \<open>\<open>POST /api/create-setup-session\<close>; \<open>frontend_url\<close> is \<open>process.env.FRONTEND_URL\<close>,
      \<open>now\<close> is \<open>new Date().toISOString()\<close>; the request is not read\<close>
  "create_setup_session stripe frontend_url now =
     (case customers_create stripe (customer_params now) of
        Inl error \<Rightarrow>
          (status_json 500
             [(lit ''error'', String (lit ''Failed to create setup session'')),
              (lit ''message'', String (message error))],
           [CustomersCreate (customer_params now)])
      | Inr customer \<Rightarrow>
          (case sessions_create stripe (session_params frontend_url customer) of
             Inl error \<Rightarrow>
               (status_json 500
                  [(lit ''error'', String (lit ''Failed to create setup session'')),
                   (lit ''message'', String (message error))],
                [CustomersCreate (customer_params now),
                 SessionsCreate (session_params frontend_url customer)])
           | Inr session \<Rightarrow>
               (json
                  [(lit ''clientSecret'', String (client_secret session)),
                   (lit ''customerId'', String (customer_id customer))],
                [CustomersCreate (customer_params now),
                 SessionsCreate (session_params frontend_url customer)])))"

definition usPhoneRegex :: regex where
  \<comment> \<open>\<open>/^\+1\d{10}$/\<close>\<close>
  "usPhoneRegex = Seq (Class is_plus) (Seq (Class is_one) (Rep 10 10 (Class is_digit)))"

definition update_params :: "jsstring \<Rightarrow> jsvalue" where
  \<comment> \<open>the second argument of \<open>stripe.customers.update\<close>\<close>
  "update_params cleanedPhone = Object
     [(lit ''phone'', String cleanedPhone),
      (lit ''metadata'', Object [(lit ''phone'', String cleanedPhone)])]"

definition destructure :: "jsvalue \<Rightarrow> error + jsvalue \<times> jsvalue" where
  \<comment> \<open>\<open>const { customerId, phone } = req.body\<close>: a \<open>TypeError\<close> on \<open>undefined\<close> and
      \<open>null\<close> (the message is the engine's, here V8's); the two properties of an object;
      \<open>undefined\<close> twice for any other value, which has neither property\<close>
  "destructure req_body =
     (case req_body of
        Undefined \<Rightarrow>
          Inl (Error (lit ''Cannot destructure property 'customerId' of 'req.body' as it is undefined.''))
      | Null \<Rightarrow>
          Inl (Error (lit ''Cannot destructure property 'customerId' of 'req.body' as it is null.''))
      | Object obj \<Rightarrow> Inr (field obj (lit ''customerId''), field obj (lit ''phone''))
      | other \<Rightarrow> Inr (Undefined, Undefined))"

definition update_customer_phone :: "provider \<Rightarrow> jsvalue \<Rightarrow> response \<times> provider_call list" where
  \<comment> \<open>\<open>POST /api/update-customer-phone\<close>; \<open>req_body\<close> is \<open>req.body\<close>\<close>
  "update_customer_phone stripe req_body =
     (case destructure req_body of
        Inl error \<Rightarrow>
          (status_json 500
             [(lit ''error'', String (lit ''Failed to update customer phone'')),
              (lit ''message'', String (message error))],
           [])
      | Inr (customerId, phone) \<Rightarrow>
          if \<not> truthy customerId \<or> typeof customerId \<noteq> ''string''
             \<or> length (trim (the_string customerId)) = 0 then
            (status_json 400
               [(lit ''error'', String (lit ''Customer ID is required'')),
                (lit ''message'', String (lit ''Please provide a valid customer ID''))],
             [])
          else if \<not> truthy phone \<or> typeof phone \<noteq> ''string''
             \<or> length (trim (the_string phone)) = 0 then
            (status_json 400
               [(lit ''error'', String (lit ''Phone number is required'')),
                (lit ''message'', String (lit ''Please provide a valid phone number''))],
             [])
          else
            (let cleanedPhone = remove_all is_separator (the_string phone)
             in if \<not> test_anchored usPhoneRegex cleanedPhone then
                  (status_json 400
                     [(lit ''error'', String (lit ''Invalid phone format'')),
                      (lit ''message'',
                       String (lit ''Phone number must be a valid US number in format +1XXXXXXXXXX''))],
                   [])
                else
                  (case customers_update stripe customerId (update_params cleanedPhone) of
                     Inl error \<Rightarrow>
                       (status_json 500
                          [(lit ''error'', String (lit ''Failed to update customer phone'')),
                           (lit ''message'', String (message error))],
                        [CustomersUpdate customerId (update_params cleanedPhone)])
                   | Inr updated \<Rightarrow>
                       (json [(lit ''success'', Boolean True)],
                        [CustomersUpdate customerId (update_params cleanedPhone)]))))"

text \<open>Providers and requests to run the handlers on.\<close>

definition accepting_stripe :: provider where
  "accepting_stripe =
     \<lparr>customers_create = (\<lambda>p. Inr (Customer (lit ''cus_123''))),
      sessions_create = (\<lambda>p. Inr (Session (lit ''cs_test_secret''))),
      customers_update = (\<lambda>i p. Inr ())\<rparr>"

definition rejecting_stripe :: provider where
  "rejecting_stripe =
     \<lparr>customers_create = (\<lambda>p. Inl (Error (lit ''Invalid API Key provided''))),
      sessions_create = (\<lambda>p. Inl (Error (lit ''Invalid API Key provided''))),
      customers_update = (\<lambda>i p. Inl (Error (lit ''No such customer'')))\<rparr>"

definition session_rejecting_stripe :: provider where
  "session_rejecting_stripe =
     \<lparr>customers_create = (\<lambda>p. Inr (Customer (lit ''cus_123''))),
      sessions_create = (\<lambda>p. Inl (Error (lit ''Rate limit exceeded''))),
      customers_update = (\<lambda>i p. Inr ())\<rparr>"

definition update_request :: "string \<Rightarrow> string \<Rightarrow> properties" where
  \<comment> \<open>the properties of the body \<open>{"customerId": c, "phone": p}\<close>\<close>
  "update_request c p = [(lit ''customerId'', String (lit c)), (lit ''phone'', String (lit p))]"

section \<open>Vocabulary of the specification\<close>

definition blank_or_absent :: "jsvalue \<Rightarrow> bool" where
  \<comment> \<open>a request field that is absent or blank: no string at all, or a string of
      whitespace only\<close>
  "blank_or_absent v = (case v of String s \<Rightarrow> list_all is_space s | _ \<Rightarrow> True)"

definition request_field :: "jsvalue \<Rightarrow> jsstring \<Rightarrow> jsvalue" where
  \<comment> \<open>the field \<open>customerId\<close> or \<open>phone\<close> of a request: absent unless the body is an
      object that has it\<close>
  "request_field req_body k = (case req_body of Object obj \<Rightarrow> field obj k | other \<Rightarrow> Undefined)"

definition canonical_us :: "jsstring \<Rightarrow> bool" where
  \<comment> \<open>\<open>+1\<close> followed by exactly 10 digits\<close>
  "canonical_us s =
     (take 2 s = lit ''+1'' \<and> length (drop 2 s) = 10 \<and> list_all is_digit (drop 2 s))"

section \<open>Facts about the matcher and the string helpers\<close>

lemma repeat_class_iff:
  "[] \<in> set (repeat (rmatch (Class p)) lo hi s) \<longleftrightarrow> lo \<le> length s \<and> length s \<le> hi \<and> list_all p s"
proof (induction hi arbitrary: lo s)
  case 0
  show ?case by auto
next
  case (Suc hi)
  show ?case
  proof (cases s)
    case Nil
    then show ?thesis by simp
  next
    case (Cons c cs)
    show ?thesis
    proof (cases "p c")
      case True
      have "[] \<in> set (repeat (rmatch (Class p)) lo (Suc hi) s)
            \<longleftrightarrow> [] \<in> set (repeat (rmatch (Class p)) (lo - 1) hi cs)"
        using Cons True by simp
      also have "\<dots> \<longleftrightarrow> lo - 1 \<le> length cs \<and> length cs \<le> hi \<and> list_all p cs"
        by (rule Suc.IH)
      also have "\<dots> \<longleftrightarrow> lo \<le> length s \<and> length s \<le> Suc hi \<and> list_all p s"
        using Cons True by auto
      finally show ?thesis .
    next
      case False
      then show ?thesis using Cons by simp
    qed
  qed
qed

lemma dropWhile_all: "(\<forall>x\<in>set (dropWhile P s). P x) \<longleftrightarrow> (\<forall>x\<in>set s. P x)"
proof
  assume a: "\<forall>x\<in>set (dropWhile P s). P x"
  have "dropWhile P s = []"
  proof (rule ccontr)
    assume ne: "dropWhile P s \<noteq> []"
    then have "\<not> P (hd (dropWhile P s))" by (rule hd_dropWhile)
    moreover have "hd (dropWhile P s) \<in> set (dropWhile P s)" using ne by simp
    ultimately show False using a by blast
  qed
  then show "\<forall>x\<in>set s. P x" by (simp add: dropWhile_eq_Nil_conv)
next
  assume "\<forall>x\<in>set s. P x"
  then show "\<forall>x\<in>set (dropWhile P s). P x" by (blast dest: set_dropWhileD)
qed

lemma trim_blank: "length (trim s) = 0 \<longleftrightarrow> list_all is_space s"
  by (simp add: trim_def dropWhile_all list_all_iff)

lemma lit_simps:
  "lit ''+1'' = [0x2B, 0x31]" "lit ''+'' = [0x2B]" "lit ''1'' = [0x31]"
  "lit ''('' = [0x28]" "lit '') '' = [0x29, 0x20]" "lit ''-'' = [0x2D]"
  by (simp_all add: lit_def)

lemma test_phoneRegex:
  "test_anchored phoneRegex s \<longleftrightarrow>
     (\<exists>ds. (s = ds \<or> s = lit ''+'' @ ds) \<and> 10 \<le> length ds \<and> length ds \<le> 15 \<and> list_all is_digit ds)"
  by (cases s)
    (auto simp: test_anchored_def phoneRegex_def repeat_class_iff is_plus_def is_digit_def lit_simps)

lemma test_usPhoneRegex: "test_anchored usPhoneRegex s \<longleftrightarrow> canonical_us s"
proof (cases s)
  case Nil
  then show ?thesis by (simp add: test_anchored_def usPhoneRegex_def canonical_us_def lit_simps)
next
  case (Cons c cs)
  then show ?thesis
    by (cases cs)
      (auto simp: test_anchored_def usPhoneRegex_def canonical_us_def repeat_class_iff
        is_plus_def is_one_def lit_simps)
qed

lemma remove_non_digit_digits: "list_all is_digit s \<Longrightarrow> remove_all non_digit s = s"
  by (simp add: remove_all_def non_digit_def list_all_iff filter_id_conv)

lemma remove_non_digit_filter: "remove_all non_digit s = filter is_digit s"
  by (simp add: remove_all_def non_digit_def)

section \<open>Properties of the phone helpers\<close>

text \<open>
  Claim C7 (\<open>isValidPhone\<close> is \<open>validatePhone\<close>). For every input string, the result is
  true exactly when the input without whitespace, hyphens and parentheses is an optional
  leading \<open>+\<close> followed by 10 to 15 digits. The function is total and boolean:
  \<open>555-123-4567\<close> and \<open>+15551234567\<close> are valid, \<open>123\<close> is not.
\<close>

theorem validatePhone_spec:
  "(validatePhone phone \<longleftrightarrow>
      (\<exists>ds. (remove_all is_separator phone = ds \<or> remove_all is_separator phone = lit ''+'' @ ds)
         \<and> 10 \<le> length ds \<and> length ds \<le> 15 \<and> list_all is_digit ds))
   \<and> validatePhone (lit ''555-123-4567'')
   \<and> validatePhone (lit ''+15551234567'')
   \<and> \<not> validatePhone (lit ''123'')"
proof -
  have "validatePhone (lit ''555-123-4567'')" by code_simp
  moreover have "validatePhone (lit ''+15551234567'')" by code_simp
  moreover have "\<not> validatePhone (lit ''123'')" by code_simp
  moreover have "validatePhone phone \<longleftrightarrow>
      (\<exists>ds. (remove_all is_separator phone = ds \<or> remove_all is_separator phone = lit ''+'' @ ds)
         \<and> 10 \<le> length ds \<and> length ds \<le> 15 \<and> list_all is_digit ds)"
    by (simp add: validatePhone_def test_phoneRegex Let_def)
  ultimately show ?thesis by (intro conjI)
qed

theorem validatePhone_spec_witness:
  "validatePhone (lit ''(555) 123-4567'') \<and> \<not> validatePhone (lit ''+1 555 123'')"
proof -
  have c: "remove_all is_separator (lit ''(555) 123-4567'') = lit ''5551234567''"
    by code_simp
  have d: "list_all is_digit (lit ''5551234567'') \<and> length (lit ''5551234567'') = 10"
    by code_simp
  have 1: "validatePhone (lit ''(555) 123-4567'')"
    using validatePhone_spec [of "lit ''(555) 123-4567''"] c d by auto
  have e: "remove_all is_separator (lit ''+1 555 123'') = lit ''+1555123''"
    by code_simp
  have f: "length (lit ''+1555123'') = 8" by code_simp
  have "\<not> (\<exists>ds. (lit ''+1555123'' = ds \<or> lit ''+1555123'' = lit ''+'' @ ds) \<and> 10 \<le> length ds)"
    using f by auto
  then have 2: "\<not> validatePhone (lit ''+1 555 123'')"
    using validatePhone_spec [of "lit ''+1 555 123''"] e by auto
  show ?thesis using 1 2 by simp
qed

text \<open>
  Claim C4 (\<open>toCanonicalUSFormat\<close> is \<open>formatPhoneToUS\<close>). A string of 11 digits whose
  first digit is \<open>1\<close> comes back as \<open>+\<close> followed by the 11 digits; a string of exactly
  10 digits comes back as \<open>+1\<close> followed by the 10 digits.
\<close>

theorem formatPhoneToUS_canonical:
  "(list_all is_digit r \<and> length r = 10 \<longrightarrow>
      formatPhoneToUS (lit ''1'' @ r) = lit ''+'' @ (lit ''1'' @ r))
   \<and> (list_all is_digit s \<and> length s = 10 \<longrightarrow> formatPhoneToUS s = lit ''+1'' @ s)"
proof -
  have "formatPhoneToUS (lit ''1'' @ r) = lit ''+'' @ (lit ''1'' @ r)"
    if "list_all is_digit r" "length r = 10"
  proof -
    have "list_all is_digit (lit ''1'' @ r)" using that by (simp add: lit_simps is_digit_def)
    then have "remove_all non_digit (lit ''1'' @ r) = lit ''1'' @ r"
      by (rule remove_non_digit_digits)
    then show ?thesis using that by (simp add: formatPhoneToUS_def startsWith_def lit_simps)
  qed
  moreover have "formatPhoneToUS s = lit ''+1'' @ s" if "list_all is_digit s" "length s = 10"
    using that remove_non_digit_digits [of s] by (simp add: formatPhoneToUS_def)
  ultimately show ?thesis by blast
qed

theorem formatPhoneToUS_canonical_witness:
  "formatPhoneToUS (lit ''15551234567'') = lit ''+15551234567''
   \<and> formatPhoneToUS (lit ''5551234567'') = lit ''+15551234567''"
proof -
  have a: "list_all is_digit (lit ''5551234567'') \<and> length (lit ''5551234567'') = 10"
    by code_simp
  have b: "lit ''1'' @ lit ''5551234567'' = lit ''15551234567''"
    "lit ''+'' @ (lit ''1'' @ lit ''5551234567'') = lit ''+15551234567''"
    "lit ''+1'' @ lit ''5551234567'' = lit ''+15551234567''"
    by (simp_all add: lit_def)
  show ?thesis
    using formatPhoneToUS_canonical [of "lit ''5551234567''" "lit ''5551234567''"] a b by simp
qed

text \<open>
  Claim C5. When the digits of the input are neither exactly 10 nor 11 with a leading
  \<open>1\<close>, and the input starts with \<open>+\<close>, \<open>formatPhoneToUS\<close> returns the input without
  whitespace, hyphens and parentheses, whatever the number of digits: \<open>+123\<close> comes back
  as \<open>+123\<close>.
\<close>

theorem formatPhoneToUS_plus_branch:
  "(length (remove_all non_digit phone) \<noteq> 10
     \<and> \<not> (length (remove_all non_digit phone) = 11 \<and> startsWith (remove_all non_digit phone) (lit ''1''))
     \<and> startsWith phone (lit ''+'')
     \<longrightarrow> formatPhoneToUS phone = remove_all is_separator phone)
   \<and> formatPhoneToUS (lit ''+123'') = lit ''+123''"
proof -
  have "formatPhoneToUS (lit ''+123'') = lit ''+123''" by code_simp
  then show ?thesis by (auto simp: formatPhoneToUS_def)
qed

theorem formatPhoneToUS_plus_branch_witness:
  "formatPhoneToUS (lit ''+44 (20) 7946-0958'') = lit ''+442079460958''"
proof -
  have a: "remove_all non_digit (lit ''+44 (20) 7946-0958'') = lit ''442079460958''" by code_simp
  have b: "length (lit ''442079460958'') = 12" by code_simp
  have c: "startsWith (lit ''+44 (20) 7946-0958'') (lit ''+'')" by code_simp
  have d: "remove_all is_separator (lit ''+44 (20) 7946-0958'') = lit ''+442079460958''" by code_simp
  show ?thesis
    using formatPhoneToUS_plus_branch [of "lit ''+44 (20) 7946-0958''"] a b c d by simp
qed

lemma substring_simps:
  "substring s 0 n = take n s" "substring s 3 6 = take 3 (drop 3 s)"
  by (simp_all add: substring_def)

lemma formatPhoneInput_limited:
  "formatPhoneInput input =
     (let d = take 10 (filter is_digit input)
      in if length d \<le> 3 then d
         else if length d \<le> 6 then lit ''('' @ take 3 d @ lit '') '' @ drop 3 d
         else lit ''('' @ take 3 d @ lit '') '' @ take 3 (drop 3 d) @ lit ''-'' @ drop 6 d)"
  by (simp only: formatPhoneInput_def remove_non_digit_filter substring_simps substring_from_def Let_def)

lemma split3: "3 < length d \<Longrightarrow> \<exists>a b c rest. d = a # b # c # rest \<and> rest \<noteq> []"
  by (cases d; cases "tl d"; cases "tl (tl d)"; cases "tl (tl (tl d))") auto

lemma split6:
  "6 < length d \<Longrightarrow> \<exists>a b c e f g rest. d = a # b # c # e # f # g # rest \<and> rest \<noteq> []"
proof -
  assume l: "6 < length d"
  then obtain a b c r1 where d: "d = a # b # c # r1" using split3 [of d] by auto
  with l have "3 < length r1" by simp
  then obtain e f g rest where "r1 = e # f # g # rest" "rest \<noteq> []" using split3 [of r1] by auto
  with d show ?thesis by blast
qed

text \<open>
  Claim C6 (\<open>formatForDisplay\<close> is \<open>formatPhoneInput\<close>). For every input string, let \<open>d\<close>
  be its digits, cut to at most 10. With 0 to 3 digits the output is \<open>d\<close> unchanged; with
  4 to 6 it is \<open>(XXX) XXX\<close>, the second group holding the 1 to 3 digits left; with 7 to
  10 it is \<open>(XXX) XXX-XXXX\<close>, the last group holding the 1 to 4 digits left. An input of
  exactly 10 digits comes out as \<open>(XXX) XXX-XXXX\<close> in full.
\<close>

theorem formatPhoneInput_shape:
  "(let d = take 10 (filter is_digit input)
    in length d \<le> 10 \<and> list_all is_digit d
       \<and> (length d \<le> 3 \<longrightarrow> formatPhoneInput input = d)
       \<and> (4 \<le> length d \<and> length d \<le> 6 \<longrightarrow>
            (\<exists>a b c rest. d = [a, b, c] @ rest \<and> 1 \<le> length rest \<and> length rest \<le> 3
               \<and> formatPhoneInput input = lit ''('' @ [a, b, c] @ lit '') '' @ rest))
       \<and> (7 \<le> length d \<longrightarrow>
            (\<exists>a b c e f g rest. d = [a, b, c, e, f, g] @ rest
               \<and> 1 \<le> length rest \<and> length rest \<le> 4
               \<and> formatPhoneInput input
                   = lit ''('' @ [a, b, c] @ lit '') '' @ [e, f, g] @ lit ''-'' @ rest)))
   \<and> (list_all is_digit input \<and> length input = 10 \<longrightarrow>
        (\<exists>a b c e f g h i j k. input = [a, b, c, e, f, g, h, i, j, k]
           \<and> formatPhoneInput input
               = lit ''('' @ [a, b, c] @ lit '') '' @ [e, f, g] @ lit ''-'' @ [h, i, j, k]))"
proof -
  define d where "d = take 10 (filter is_digit input)"
  have len: "length d \<le> 10" by (simp add: d_def)
  have dig: "list_all is_digit d" by (auto simp: d_def list_all_iff dest: in_set_takeD)
  have fmt: "formatPhoneInput input =
     (if length d \<le> 3 then d
      else if length d \<le> 6 then lit ''('' @ take 3 d @ lit '') '' @ drop 3 d
      else lit ''('' @ take 3 d @ lit '') '' @ take 3 (drop 3 d) @ lit ''-'' @ drop 6 d)"
    unfolding d_def by (simp only: formatPhoneInput_limited Let_def)
  have small: "formatPhoneInput input = d" if "length d \<le> 3"
    using that fmt by simp
  have mid: "\<exists>a b c rest. d = [a, b, c] @ rest \<and> 1 \<le> length rest \<and> length rest \<le> 3
               \<and> formatPhoneInput input = lit ''('' @ [a, b, c] @ lit '') '' @ rest"
    if "4 \<le> length d" "length d \<le> 6"
  proof -
    from that obtain a b c rest where e: "d = a # b # c # rest" "rest \<noteq> []"
      using split3 [of d] by auto
    have "1 \<le> length rest" using e(2) by (cases rest) auto
    moreover have "length rest \<le> 3" using that e by simp
    moreover have "formatPhoneInput input = lit ''('' @ [a, b, c] @ lit '') '' @ rest"
      using that e fmt by simp
    ultimately show ?thesis using e by auto
  qed
  have big: "\<exists>a b c e f g rest. d = [a, b, c, e, f, g] @ rest
               \<and> 1 \<le> length rest \<and> length rest \<le> 4
               \<and> formatPhoneInput input
                   = lit ''('' @ [a, b, c] @ lit '') '' @ [e, f, g] @ lit ''-'' @ rest"
    if "7 \<le> length d"
  proof -
    from that obtain a b c e f g rest where e: "d = a # b # c # e # f # g # rest" "rest \<noteq> []"
      using split6 [of d] by auto
    have "1 \<le> length rest" using e(2) by (cases rest) auto
    moreover have "length rest \<le> 4" using len e by simp
    moreover have "formatPhoneInput input
                   = lit ''('' @ [a, b, c] @ lit '') '' @ [e, f, g] @ lit ''-'' @ rest"
      using that e fmt by simp
    ultimately show ?thesis using e by auto
  qed
  have ten: "\<exists>a b c e f g h i j k. input = [a, b, c, e, f, g, h, i, j, k]
           \<and> formatPhoneInput input
               = lit ''('' @ [a, b, c] @ lit '') '' @ [e, f, g] @ lit ''-'' @ [h, i, j, k]"
    if "list_all is_digit input" "length input = 10"
  proof -
    have "filter is_digit input = input" using that(1) by (simp add: list_all_iff filter_id_conv)
    then have di: "d = input" using that(2) by (simp add: d_def)
    then have "7 \<le> length d" using that(2) by simp
    from big [OF this] obtain a b c e f g rest where
      r: "d = [a, b, c, e, f, g] @ rest"
      "formatPhoneInput input = lit ''('' @ [a, b, c] @ lit '') '' @ [e, f, g] @ lit ''-'' @ rest"
      by blast
    have "length rest = 4" using r(1) di that(2) by simp
    then obtain h i j k where "rest = [h, i, j, k]"
      by (cases rest; cases "tl rest"; cases "tl (tl rest)"; cases "tl (tl (tl rest))") auto
    with r di show ?thesis by auto
  qed
  show ?thesis
    unfolding Let_def d_def [symmetric] using len dig small mid big ten by blast
qed

theorem formatPhoneInput_shape_witness:
  "formatPhoneInput (lit ''55'') = lit ''55''
   \<and> (\<exists>a b c rest. lit ''55512'' = [a, b, c] @ rest
        \<and> formatPhoneInput (lit ''555-12'') = lit ''('' @ [a, b, c] @ lit '') '' @ rest)
   \<and> (\<exists>a b c e f g rest. lit ''55512345'' = [a, b, c, e, f, g] @ rest
        \<and> formatPhoneInput (lit ''(555) 123-45'')
            = lit ''('' @ [a, b, c] @ lit '') '' @ [e, f, g] @ lit ''-'' @ rest)
   \<and> (\<exists>a b c e f g h i j k. lit ''5551234567'' = [a, b, c, e, f, g, h, i, j, k]
        \<and> formatPhoneInput (lit ''5551234567'')
            = lit ''('' @ [a, b, c] @ lit '') '' @ [e, f, g] @ lit ''-'' @ [h, i, j, k])"
proof -
  have d1: "take 10 (filter is_digit (lit ''55'')) = lit ''55''" by code_simp
  have l1: "length (lit ''55'') = 2" by code_simp
  have d2: "take 10 (filter is_digit (lit ''555-12'')) = lit ''55512''" by code_simp
  have l2: "length (lit ''55512'') = 5" by code_simp
  have d3: "take 10 (filter is_digit (lit ''(555) 123-45'')) = lit ''55512345''" by code_simp
  have l3: "length (lit ''55512345'') = 8" by code_simp
  have d4: "list_all is_digit (lit ''5551234567'') \<and> length (lit ''5551234567'') = 10"
    by code_simp
  have 1: "formatPhoneInput (lit ''55'') = lit ''55''"
    using formatPhoneInput_shape [of "lit ''55''"] d1 l1 by (simp add: Let_def)
  have 2: "\<exists>a b c rest. lit ''55512'' = [a, b, c] @ rest
        \<and> formatPhoneInput (lit ''555-12'') = lit ''('' @ [a, b, c] @ lit '') '' @ rest"
    using formatPhoneInput_shape [of "lit ''555-12''"] d2 l2 by (simp add: Let_def) blast
  have 3: "\<exists>a b c e f g rest. lit ''55512345'' = [a, b, c, e, f, g] @ rest
        \<and> formatPhoneInput (lit ''(555) 123-45'')
            = lit ''('' @ [a, b, c] @ lit '') '' @ [e, f, g] @ lit ''-'' @ rest"
    using formatPhoneInput_shape [of "lit ''(555) 123-45''"] d3 l3 by (simp add: Let_def) blast
  have 4: "\<exists>a b c e f g h i j k. lit ''5551234567'' = [a, b, c, e, f, g, h, i, j, k]
        \<and> formatPhoneInput (lit ''5551234567'')
            = lit ''('' @ [a, b, c] @ lit '') '' @ [e, f, g] @ lit ''-'' @ [h, i, j, k]"
    using formatPhoneInput_shape [of "lit ''5551234567''"] d4 by blast
  show ?thesis using 1 2 3 4 by (intro conjI)
qed

lemma digits_of_rendering:
  assumes "list_all is_digit d"
  shows "filter is_digit (lit ''('' @ take 3 d @ lit '') '' @ drop 3 d) = d"
    and "filter is_digit (lit ''('' @ take 3 d @ lit '') '' @ take 3 (drop 3 d) @ lit ''-'' @ drop 6 d) = d"
proof -
  have t: "filter is_digit (take n d) = take n d" for n
    using assms by (auto simp: list_all_iff filter_id_conv dest: in_set_takeD)
  have dr: "filter is_digit (drop n d) = drop n d" for n
    using assms by (auto simp: list_all_iff filter_id_conv dest: in_set_dropD)
  have t2: "filter is_digit (take 3 (drop 3 d)) = take 3 (drop 3 d)"
    using assms by (auto simp: list_all_iff filter_id_conv dest: in_set_dropD in_set_takeD)
  show "filter is_digit (lit ''('' @ take 3 d @ lit '') '' @ drop 3 d) = d"
    by (simp add: t dr lit_simps is_digit_def)
  have "take 3 d @ take 3 (drop 3 d) @ drop 6 d = d"
    by (metis append_take_drop_id numeral_Bit0 append.assoc take_add)
  then show "filter is_digit (lit ''('' @ take 3 d @ lit '') '' @ take 3 (drop 3 d) @ lit ''-'' @ drop 6 d) = d"
    by (simp add: t dr t2 lit_simps is_digit_def)
qed

text \<open>
  Claim C8. \<open>formatPhoneInput\<close> is idempotent: formatting its own output changes nothing.
\<close>

theorem formatPhoneInput_idempotent:
  "formatPhoneInput (formatPhoneInput x) = formatPhoneInput x"
proof -
  define d where "d = take 10 (filter is_digit x)"
  have len: "length d \<le> 10" by (simp add: d_def)
  have dig: "list_all is_digit d" by (auto simp: d_def list_all_iff dest: in_set_takeD)
  have fd: "filter is_digit d = d" using dig by (simp add: list_all_iff filter_id_conv)
  have fmt: "formatPhoneInput x =
     (if length d \<le> 3 then d
      else if length d \<le> 6 then lit ''('' @ take 3 d @ lit '') '' @ drop 3 d
      else lit ''('' @ take 3 d @ lit '') '' @ take 3 (drop 3 d) @ lit ''-'' @ drop 6 d)"
    unfolding d_def by (simp only: formatPhoneInput_limited Let_def)
  let ?R = "if length d \<le> 3 then d
      else if length d \<le> 6 then lit ''('' @ take 3 d @ lit '') '' @ drop 3 d
      else lit ''('' @ take 3 d @ lit '') '' @ take 3 (drop 3 d) @ lit ''-'' @ drop 6 d"
  have "filter is_digit ?R = d"
  proof (cases "length d \<le> 3")
    case True
    then show ?thesis using fd by simp
  next
    case False
    note outer = this
    show ?thesis
    proof (cases "length d \<le> 6")
      case True
      then show ?thesis using outer digits_of_rendering(1) [OF dig] by (simp only: if_True if_False)
    next
      case False
      then show ?thesis using outer digits_of_rendering(2) [OF dig] by (simp only: if_True if_False)
    qed
  qed
  then have "filter is_digit (formatPhoneInput x) = d" by (simp only: fmt)
  then have k: "take 10 (filter is_digit (formatPhoneInput x)) = d" using len by simp
  have again: "formatPhoneInput (formatPhoneInput x) = ?R"
    by (simp only: formatPhoneInput_limited [of "formatPhoneInput x"] k Let_def)
  show ?thesis unfolding again by (rule fmt [symmetric])
qed

section \<open>Properties of the handlers\<close>

lemma rejected_field:
  "(\<not> truthy v \<or> typeof v \<noteq> ''string'' \<or> length (trim (the_string v)) = 0) \<longleftrightarrow> blank_or_absent v"
proof (cases v)
  case (String s)
  have "trim s = [] \<longleftrightarrow> list_all is_space s" using trim_blank [of s] by simp
  then show ?thesis using String by (auto simp: blank_or_absent_def)
qed (simp_all add: blank_or_absent_def)

lemma destructure_parsed:
  "req_body \<noteq> Undefined \<Longrightarrow> req_body \<noteq> Null \<Longrightarrow>
   destructure req_body =
     Inr (request_field req_body (lit ''customerId''), request_field req_body (lit ''phone''))"
  by (cases req_body) (simp_all add: destructure_def request_field_def)

lemma update_customer_phone_parsed:
  assumes "req_body \<noteq> Undefined" and "req_body \<noteq> Null"
  shows "update_customer_phone stripe req_body =
     (if blank_or_absent (request_field req_body (lit ''customerId'')) then
        (\<lparr>status = 400,
          body = [(lit ''error'', String (lit ''Customer ID is required'')),
                  (lit ''message'', String (lit ''Please provide a valid customer ID''))]\<rparr>, [])
      else if blank_or_absent (request_field req_body (lit ''phone'')) then
        (\<lparr>status = 400,
          body = [(lit ''error'', String (lit ''Phone number is required'')),
                  (lit ''message'', String (lit ''Please provide a valid phone number''))]\<rparr>, [])
      else if \<not> canonical_us
           (remove_all is_separator (the_string (request_field req_body (lit ''phone'')))) then
        (\<lparr>status = 400,
          body = [(lit ''error'', String (lit ''Invalid phone format'')),
                  (lit ''message'',
                   String (lit ''Phone number must be a valid US number in format +1XXXXXXXXXX''))]\<rparr>, [])
      else
        (case customers_update stripe (request_field req_body (lit ''customerId''))
                (update_params
                   (remove_all is_separator (the_string (request_field req_body (lit ''phone''))))) of
           Inl error \<Rightarrow>
             \<lparr>status = 500,
              body = [(lit ''error'', String (lit ''Failed to update customer phone'')),
                      (lit ''message'', String (message error))]\<rparr>
         | Inr updated \<Rightarrow> \<lparr>status = 200, body = [(lit ''success'', Boolean True)]\<rparr>,
         [CustomersUpdate (request_field req_body (lit ''customerId''))
            (update_params
               (remove_all is_separator (the_string (request_field req_body (lit ''phone'')))))]))"
  unfolding update_customer_phone_def destructure_parsed [OF assms] Let_def rejected_field
    test_usPhoneRegex status_json_def json_def
  by (simp split: sum.split)

lemma update_customer_phone_cases:
  "update_customer_phone stripe (Object b) =
     (if blank_or_absent (field b (lit ''customerId'')) then
        (\<lparr>status = 400,
          body = [(lit ''error'', String (lit ''Customer ID is required'')),
                  (lit ''message'', String (lit ''Please provide a valid customer ID''))]\<rparr>, [])
      else if blank_or_absent (field b (lit ''phone'')) then
        (\<lparr>status = 400,
          body = [(lit ''error'', String (lit ''Phone number is required'')),
                  (lit ''message'', String (lit ''Please provide a valid phone number''))]\<rparr>, [])
      else if \<not> canonical_us (remove_all is_separator (the_string (field b (lit ''phone'')))) then
        (\<lparr>status = 400,
          body = [(lit ''error'', String (lit ''Invalid phone format'')),
                  (lit ''message'',
                   String (lit ''Phone number must be a valid US number in format +1XXXXXXXXXX''))]\<rparr>, [])
      else
        (case customers_update stripe (field b (lit ''customerId''))
                (update_params (remove_all is_separator (the_string (field b (lit ''phone''))))) of
           Inl error \<Rightarrow>
             \<lparr>status = 500,
              body = [(lit ''error'', String (lit ''Failed to update customer phone'')),
                      (lit ''message'', String (message error))]\<rparr>
         | Inr updated \<Rightarrow> \<lparr>status = 200, body = [(lit ''success'', Boolean True)]\<rparr>,
         [CustomersUpdate (field b (lit ''customerId''))
            (update_params (remove_all is_separator (the_string (field b (lit ''phone'')))))]))"
  using update_customer_phone_parsed [of "Object b" stripe] by (simp add: request_field_def)

lemma canonical_not_blank:
  assumes "canonical_us (remove_all is_separator (the_string v))"
  shows "\<not> blank_or_absent v"
proof (cases v)
  case (String s)
  have "take 2 (remove_all is_separator s) = lit ''+1''"
    using assms String by (simp add: canonical_us_def)
  then have "0x2B \<in> set (take 2 (remove_all is_separator s))" by (simp add: lit_simps)
  then have "0x2B \<in> set (remove_all is_separator s)" by (rule in_set_takeD)
  then have "0x2B \<in> set s" by (simp add: remove_all_def)
  moreover have "\<not> is_space 0x2B" by (simp add: is_space_def)
  ultimately show ?thesis using String by (auto simp: blank_or_absent_def list_all_iff)
qed (use assms in \<open>simp_all add: canonical_us_def remove_all_def lit_simps\<close>)

lemma canonical_clean:
  "list_all (\<lambda>c. \<not> is_separator c) (remove_all is_separator s)"
  by (simp add: remove_all_def list_all_iff)


lemma field_update_request:
  "field (update_request c p) (lit ''customerId'') = String (lit c)"
  "field (update_request c p) (lit ''phone'') = String (lit p)"
  by (simp_all add: field_def update_request_def lit_def)



text \<open>
  Claim C2, amended. For a request with a non-blank \<open>customerId\<close> and a phone that,
  without whitespace, hyphens and parentheses, is \<open>+1\<close> and 10 digits, exactly one
  provider call is issued, an update whose \<open>phone\<close> and \<open>metadata.phone\<close> are the same
  value; when that call succeeds the response is 200 with \<open>{success: true}\<close>.
\<close>

theorem update_customer_phone_success:
  assumes "\<not> blank_or_absent (field b (lit ''customerId''))"
    and "canonical_us (remove_all is_separator (the_string (field b (lit ''phone''))))"
  shows "let customerId = field b (lit ''customerId'');
             c = remove_all is_separator (the_string (field b (lit ''phone'')));
             params = Object [(lit ''phone'', String c),
                              (lit ''metadata'', Object [(lit ''phone'', String c)])]
         in snd (update_customer_phone stripe (Object b)) = [CustomersUpdate customerId params]
            \<and> (customers_update stripe customerId params = Inr () \<longrightarrow>
                 fst (update_customer_phone stripe (Object b))
                   = \<lparr>status = 200, body = [(lit ''success'', Boolean True)]\<rparr>)"
  using assms canonical_not_blank [OF assms(2)]
  by (simp add: update_customer_phone_cases update_params_def Let_def)

theorem update_customer_phone_success_witness:
  "update_customer_phone accepting_stripe (Object (update_request ''cus_123'' ''+15551234567'')) =
     (\<lparr>status = 200, body = [(lit ''success'', Boolean True)]\<rparr>,
      [CustomersUpdate (String (lit ''cus_123''))
         (Object [(lit ''phone'', String (lit ''+15551234567'')),
                  (lit ''metadata'', Object [(lit ''phone'', String (lit ''+15551234567''))])])])"
proof -
  have a: "\<not> blank_or_absent (String (lit ''cus_123''))" by code_simp
  have b: "remove_all is_separator (lit ''+15551234567'') = lit ''+15551234567''" by code_simp
  have c: "canonical_us (lit ''+15551234567'')" by code_simp
  have d: "customers_update accepting_stripe i p = Inr ()" for i p
    by (simp add: accepting_stripe_def)
  show ?thesis
    using update_customer_phone_success
        [of "update_request ''cus_123'' ''+15551234567''" accepting_stripe] a b c d
    by (simp add: field_update_request Let_def prod_eq_iff)
qed

text \<open>
  Claim C2 as written promises 200 for every such request. The handler catches a
  rejected provider call and answers 500 with the provider's message: here for the body
  \<open>{"customerId": "cus_123", "phone": "+15551234567"}\<close> and a provider that rejects.
\<close>

theorem update_customer_phone_provider_failure:
  "\<not> blank_or_absent (field (update_request ''cus_123'' ''+15551234567'') (lit ''customerId''))
   \<and> canonical_us (remove_all is_separator
         (the_string (field (update_request ''cus_123'' ''+15551234567'') (lit ''phone''))))
   \<and> fst (update_customer_phone rejecting_stripe (Object (update_request ''cus_123'' ''+15551234567'')))
       = \<lparr>status = 500,
          body = [(lit ''error'', String (lit ''Failed to update customer phone'')),
                  (lit ''message'', String (lit ''No such customer''))]\<rparr>
   \<and> status (fst (update_customer_phone rejecting_stripe
         (Object (update_request ''cus_123'' ''+15551234567'')))) \<noteq> 200"
proof -
  have a: "\<not> blank_or_absent (String (lit ''cus_123''))" by code_simp
  have b: "canonical_us (remove_all is_separator (the_string (String (lit ''+15551234567''))))"
    by code_simp
  have c: "\<not> blank_or_absent (String (lit ''+15551234567''))" by code_simp
  show ?thesis
    using a b c
    by (simp add: update_customer_phone_cases field_update_request rejecting_stripe_def)
qed

text \<open>
  Claim C10. For a request that passes validation, the value sent to the provider, in
  \<open>phone\<close> and in \<open>metadata.phone\<close> alike, is the cleaned phone: the request's phone
  without whitespace, hyphens and parentheses, which is \<open>+1\<close> and 10 digits and holds no
  separator. The accepted input \<open>+1 (555) 123-4567\<close> is forwarded as \<open>+15551234567\<close>.
\<close>

theorem update_customer_phone_forwards_cleaned:
  "(\<not> blank_or_absent (field b (lit ''customerId''))
      \<and> \<not> blank_or_absent (field b (lit ''phone''))
      \<and> canonical_us (remove_all is_separator (the_string (field b (lit ''phone'')))) \<longrightarrow>
      (let c = remove_all is_separator (the_string (field b (lit ''phone'')))
       in snd (update_customer_phone stripe (Object b)) =
            [CustomersUpdate (field b (lit ''customerId''))
               (Object [(lit ''phone'', String c),
                        (lit ''metadata'', Object [(lit ''phone'', String c)])])]
          \<and> canonical_us c \<and> list_all (\<lambda>u. \<not> is_separator u) c))
   \<and> snd (update_customer_phone stripe (Object (update_request ''cus_123'' ''+1 (555) 123-4567''))) =
       [CustomersUpdate (String (lit ''cus_123''))
          (Object [(lit ''phone'', String (lit ''+15551234567'')),
                   (lit ''metadata'', Object [(lit ''phone'', String (lit ''+15551234567''))])])]"
proof -
  have a: "\<not> blank_or_absent (String (lit ''cus_123''))" by code_simp
  have b: "remove_all is_separator (lit ''+1 (555) 123-4567'') = lit ''+15551234567''"
    by code_simp
  have c: "canonical_us (lit ''+15551234567'')" by code_simp
  have d: "\<not> blank_or_absent (String (lit ''+1 (555) 123-4567''))" by code_simp
  have example:
    "snd (update_customer_phone stripe (Object (update_request ''cus_123'' ''+1 (555) 123-4567''))) =
       [CustomersUpdate (String (lit ''cus_123''))
          (Object [(lit ''phone'', String (lit ''+15551234567'')),
                   (lit ''metadata'', Object [(lit ''phone'', String (lit ''+15551234567''))])])]"
    using a b c d by (simp add: update_customer_phone_cases field_update_request update_params_def)
  have general:
    "\<not> blank_or_absent (field b (lit ''customerId''))
      \<and> \<not> blank_or_absent (field b (lit ''phone''))
      \<and> canonical_us (remove_all is_separator (the_string (field b (lit ''phone'')))) \<longrightarrow>
      (let c = remove_all is_separator (the_string (field b (lit ''phone'')))
       in snd (update_customer_phone stripe (Object b)) =
            [CustomersUpdate (field b (lit ''customerId''))
               (Object [(lit ''phone'', String c),
                        (lit ''metadata'', Object [(lit ''phone'', String c)])])]
          \<and> canonical_us c \<and> list_all (\<lambda>u. \<not> is_separator u) c)"
    by (simp add: update_customer_phone_cases update_params_def Let_def canonical_clean)
  show ?thesis using general example by (intro conjI)
qed

theorem update_customer_phone_forwards_cleaned_witness:
  "snd (update_customer_phone rejecting_stripe (Object (update_request ''cus_9'' ''(+1) 202-555-0143''))) =
     [CustomersUpdate (String (lit ''cus_9''))
        (Object [(lit ''phone'', String (lit ''+12025550143'')),
                 (lit ''metadata'', Object [(lit ''phone'', String (lit ''+12025550143''))])])]
   \<and> canonical_us (lit ''+12025550143'')"
proof -
  have a: "\<not> blank_or_absent (String (lit ''cus_9''))" by code_simp
  have b: "remove_all is_separator (lit ''(+1) 202-555-0143'') = lit ''+12025550143''"
    by code_simp
  have c: "canonical_us (lit ''+12025550143'')" by code_simp
  have d: "\<not> blank_or_absent (String (lit ''(+1) 202-555-0143''))" by code_simp
  show ?thesis
    using update_customer_phone_forwards_cleaned
        [of "update_request ''cus_9'' ''(+1) 202-555-0143''" rejecting_stripe] a b c d
    by (simp add: field_update_request Let_def)
qed

text \<open>
  Claim C3. When the customer creation and then the session creation both succeed,
  \<open>POST /api/create-setup-session\<close> answers 200 with the session's client secret under
  \<open>clientSecret\<close> and the new customer's identifier under \<open>customerId\<close>, as the
  provider returned them.
\<close>

theorem create_setup_session_success:
  assumes "customers_create stripe (customer_params now) = Inr customer"
    and "sessions_create stripe (session_params frontend_url customer) = Inr session"
  shows "fst (create_setup_session stripe frontend_url now) =
           \<lparr>status = 200,
            body = [(lit ''clientSecret'', String (client_secret session)),
                    (lit ''customerId'', String (customer_id customer))]\<rparr>"
  using assms by (simp add: create_setup_session_def json_def)

theorem create_setup_session_success_witness:
  "fst (create_setup_session accepting_stripe (lit ''https://shop.example'')
          (lit ''2024-05-01T12:00:00.000Z'')) =
     \<lparr>status = 200,
      body = [(lit ''clientSecret'', String (lit ''cs_test_secret'')),
              (lit ''customerId'', String (lit ''cus_123''))]\<rparr>"
proof -
  have a: "customers_create accepting_stripe p = Inr (Customer (lit ''cus_123''))" for p
    by (simp add: accepting_stripe_def)
  have b: "sessions_create accepting_stripe p = Inr (Session (lit ''cs_test_secret''))" for p
    by (simp add: accepting_stripe_def)
  show ?thesis
    using create_setup_session_success [OF a b] by simp
qed

text \<open>
  Claim C9. When the customer creation fails, or it succeeds and the session creation
  fails, \<open>POST /api/create-setup-session\<close> answers 500 with the error code
  \<open>Failed to create setup session\<close> and the provider's message. Nothing is retried: the
  calls issued are the one customer creation, followed in the second case by the one
  session creation.
\<close>

theorem create_setup_session_failure:
  "(customers_create stripe (customer_params now) = Inl e \<longrightarrow>
      create_setup_session stripe frontend_url now =
        (\<lparr>status = 500,
          body = [(lit ''error'', String (lit ''Failed to create setup session'')),
                  (lit ''message'', String (message e))]\<rparr>,
         [CustomersCreate (customer_params now)]))
   \<and> (customers_create stripe (customer_params now) = Inr customer
        \<and> sessions_create stripe (session_params frontend_url customer) = Inl e \<longrightarrow>
      create_setup_session stripe frontend_url now =
        (\<lparr>status = 500,
          body = [(lit ''error'', String (lit ''Failed to create setup session'')),
                  (lit ''message'', String (message e))]\<rparr>,
         [CustomersCreate (customer_params now),
          SessionsCreate (session_params frontend_url customer)]))"
  by (simp add: create_setup_session_def status_json_def)

theorem create_setup_session_failure_witness:
  "create_setup_session rejecting_stripe (lit ''https://shop.example'')
       (lit ''2024-05-01T12:00:00.000Z'') =
     (\<lparr>status = 500,
       body = [(lit ''error'', String (lit ''Failed to create setup session'')),
               (lit ''message'', String (lit ''Invalid API Key provided''))]\<rparr>,
      [CustomersCreate (customer_params (lit ''2024-05-01T12:00:00.000Z''))])
   \<and> create_setup_session session_rejecting_stripe (lit ''https://shop.example'')
       (lit ''2024-05-01T12:00:00.000Z'') =
     (\<lparr>status = 500,
       body = [(lit ''error'', String (lit ''Failed to create setup session'')),
               (lit ''message'', String (lit ''Rate limit exceeded''))]\<rparr>,
      [CustomersCreate (customer_params (lit ''2024-05-01T12:00:00.000Z'')),
       SessionsCreate (session_params (lit ''https://shop.example'') (Customer (lit ''cus_123'')))])"
proof -
  have a: "customers_create rejecting_stripe p = Inl (Error (lit ''Invalid API Key provided''))"
    for p by (simp add: rejecting_stripe_def)
  have b: "customers_create session_rejecting_stripe p = Inr (Customer (lit ''cus_123''))"
    for p by (simp add: session_rejecting_stripe_def)
  have c: "sessions_create session_rejecting_stripe p = Inl (Error (lit ''Rate limit exceeded''))"
    for p by (simp add: session_rejecting_stripe_def)
  show ?thesis
    using create_setup_session_failure
        [of rejecting_stripe "lit ''2024-05-01T12:00:00.000Z''"
          "Error (lit ''Invalid API Key provided'')" "lit ''https://shop.example''"]
      create_setup_session_failure
        [of session_rejecting_stripe "lit ''2024-05-01T12:00:00.000Z''"
          "Error (lit ''Rate limit exceeded'')" "lit ''https://shop.example''"
          "Customer (lit ''cus_123'')"]
      a b c
    by simp
qed

end
